theory Spec2Isabelle
  imports Main
begin

section \<open>The regex string builder of \<^verbatim>\<open>RegexBuilder/regex_builder.py\<close>\<close>

text \<open>
  The module holds one class, \<^verbatim>\<open>RegexStringBuilder\<close>. An instance carries three
  attributes; every method reads and rewrites them and hands back a value. The model
  passes the instance explicitly: a method takes the object and returns the value it
  returns together with the object as the call leaves it. An exception is a value of
  type \<open>error\<close> on the left of a sum.
\<close>

subsection \<open>Values, errors and the instance\<close>

datatype error = AttributeError string | NameError string | TypeError | ValueError

text \<open>The members of \<^verbatim>\<open>re.RegexFlag\<close> that the class mentions.\<close>

datatype re_flag = IGNORECASE | MULTILINE | DOTALL | UNICODE | ASCII | DEBUG

text \<open>An item of the list \<^verbatim>\<open>regex_flags\<close>: a Python \<^verbatim>\<open>str\<close> or a flag of \<^verbatim>\<open>re\<close>.\<close>

datatype token = Str string | Flag re_flag

text \<open>
  An argument that an f-string formats into the pattern: an \<^verbatim>\<open>int\<close>, a \<^verbatim>\<open>str\<close>, or a
  \<^verbatim>\<open>float\<close>. The class does nothing with a float but format it, so a float is carried as
  the text that \<^verbatim>\<open>str\<close> renders it to.
\<close>

datatype arg = IntArg int | StrArg string | FloatArg string

record builder =
  regex_string :: string
  regex_flags :: "token list"
  previous_methods :: "string list"

text \<open>What a call returns: the instance itself, \<^verbatim>\<open>None\<close>, or a string.\<close>

datatype val = Self | NoneVal | StrVal string

text \<open>\<^verbatim>\<open>__init__\<close>\<close>

definition init :: builder where
  "init = \<lparr>regex_string = [], regex_flags = [], previous_methods = []\<rparr>"

abbreviation bsl :: char where
  "bsl \<equiv> CHR 0x5C"

fun and_then :: "error + 'a \<Rightarrow> ('a \<Rightarrow> error + 'b) \<Rightarrow> error + 'b" where
  "and_then (Inl err) f = Inl err"
| "and_then (Inr x) f = f x"

subsection \<open>Name resolution\<close>

text \<open>
  The names bound at the top level of the module: the \<^verbatim>\<open>class\<close> statement is its only
  statement, and the file has no \<^verbatim>\<open>import\<close>.
\<close>

definition module_names :: "string list" where
  "module_names = [''RegexStringBuilder'']"

text \<open>The names bound in the class body, one for each \<^verbatim>\<open>def\<close>, in source order.\<close>

definition class_names :: "string list" where
  "class_names =
    [''__init__'', ''_add_flag'', ''_apply_changes'',
     ''case_insensitive'', ''multiline'', ''match_newlines'', ''as_unicode'', ''as_ascii'',
     ''debug_mode'', ''one_or_more'', ''zero_or_more'', ''zero_or_one'', ''starting_with'',
     ''ending_with'', ''match_any_character'', ''match_exactly'',
     ''either_word_or_substring'', ''match_either_or'', ''match_previous_or_this'',
     ''set_of'', ''match_from_n_to_m_occurrences'', ''match_literal'', ''escape'',
     ''match_all_words'', ''match_all_words_and_digits'', ''match_all_digits'',
     ''match_words_up_to_n_chars'', ''match_all_chars'', ''optional_character'',
     ''not_set_of'', ''match_non_whitespace'', ''build'']"

text \<open>The attributes \<^verbatim>\<open>__init__\<close> sets on the instance.\<close>

definition instance_names :: "string list" where
  "instance_names = [''regex_string'', ''regex_flags'', ''previous_methods'']"

text \<open>
  \<^verbatim>\<open>self.name\<close>: the attribute when the instance or its class binds the name, and
  \<^verbatim>\<open>AttributeError\<close> otherwise. The second argument is what the name stands for.
\<close>

definition getattr :: "string \<Rightarrow> 'm \<Rightarrow> error + 'm" where
  "getattr name m =
     (if name \<in> set instance_names \<or> name \<in> set class_names then Inr m
      else Inl (AttributeError name))"

text \<open>
  \<^verbatim>\<open>re.FLAG\<close> inside the module: the global \<^verbatim>\<open>re\<close> is looked up first, and is a
  \<^verbatim>\<open>NameError\<close> when the module does not bind it.
\<close>

definition re_attr :: "re_flag \<Rightarrow> error + token" where
  "re_attr f = (if ''re'' \<in> set module_names then Inr (Flag f) else Inl (NameError ''re''))"

text \<open>
  The class body calls three methods that it does not define: \<^verbatim>\<open>_add_postfix\<close>,
  \<^verbatim>\<open>_add_prefix\<close> and \<^verbatim>\<open>_add_to_regex_string\<close>. What such a name would be bound to is a
  parameter of the model; \<open>getattr\<close> decides whether it is ever reached.
\<close>

record helpers =
  add_postfix :: "string \<Rightarrow> string \<Rightarrow> builder \<Rightarrow> error + builder"
  add_prefix :: "string \<Rightarrow> string \<Rightarrow> builder \<Rightarrow> error + builder"
  add_to_regex_string :: "string \<Rightarrow> builder \<Rightarrow> error + builder"

subsection \<open>Formatting\<close>

text \<open>
  \<^verbatim>\<open>str(n)\<close> for an integer, as an f-string renders it: the decimal digits, after a
  minus sign when negative. Python refuses the conversion with a \<^verbatim>\<open>ValueError\<close> when the
  number has more digits than \<^verbatim>\<open>sys.get_int_max_str_digits()\<close>, 4300 unless changed.
\<close>

definition max_str_digits :: nat where
  "max_str_digits = 4300"

definition digit_char :: "nat \<Rightarrow> char" where
  "digit_char d = ''0123456789'' ! d"

fun str_nat :: "nat \<Rightarrow> string" where
  "str_nat n = (if n < 10 then [digit_char n] else str_nat (n div 10) @ [digit_char (n mod 10)])"

declare str_nat.simps [simp del]

definition str_int :: "int \<Rightarrow> error + string" where
  "str_int i =
     (let digits = str_nat (nat \<bar>i\<bar>)
      in if max_str_digits < length digits then Inl ValueError
         else Inr (if i < 0 then CHR ''-'' # digits else digits))"

fun format_arg :: "arg \<Rightarrow> error + string" where
  "format_arg (IntArg i) = str_int i"
| "format_arg (StrArg s) = Inr s"
| "format_arg (FloatArg s) = Inr s"

text \<open>
  \<^verbatim>\<open>sep.join(items)\<close>: a \<^verbatim>\<open>TypeError\<close> when an item is not a \<^verbatim>\<open>str\<close>.
\<close>

fun join_strs :: "string \<Rightarrow> string list \<Rightarrow> string" where
  "join_strs sep [] = []"
| "join_strs sep [x] = x"
| "join_strs sep (x # y # ys) = x @ sep @ join_strs sep (y # ys)"

fun str_items :: "token list \<Rightarrow> error + string list" where
  "str_items [] = Inr []"
| "str_items (Str s # ts) = and_then (str_items ts) (\<lambda>ss. Inr (s # ss))"
| "str_items (Flag f # ts) = Inl TypeError"

definition join :: "string \<Rightarrow> token list \<Rightarrow> error + string" where
  "join sep items = and_then (str_items items) (\<lambda>ss. Inr (join_strs sep ss))"

subsection \<open>The internal methods\<close>

text \<open>\<^verbatim>\<open>_add_flag\<close>: \<^verbatim>\<open>self.regex_flags.append(flag)\<close>; the method returns \<^verbatim>\<open>None\<close>.\<close>

definition add_flag :: "token \<Rightarrow> builder \<Rightarrow> val \<times> builder" where
  "add_flag flag self = (NoneVal, self\<lparr>regex_flags := regex_flags self @ [flag]\<rparr>)"

text \<open>\<^verbatim>\<open>_apply_changes\<close>\<close>

definition apply_changes :: "helpers \<Rightarrow> builder \<Rightarrow> error + val \<times> builder" where
  "apply_changes H self =
     (if regex_flags self \<noteq> [] then
        and_then (join ''|'' (regex_flags self)) (\<lambda>flags.
        and_then (getattr ''_add_to_regex_string'' (add_to_regex_string H)) (\<lambda>m.
        and_then (m (''(?'' @ flags @ '')'') self) (\<lambda>self'.
        Inr (NoneVal, self'))))
      else Inr (NoneVal, self))"

text \<open>\<^verbatim>\<open>build\<close>\<close>

definition build :: "helpers \<Rightarrow> builder \<Rightarrow> error + val \<times> builder" where
  "build H self =
     and_then (getattr ''_apply_changes'' (apply_changes H)) (\<lambda>m.
     and_then (m self) (\<lambda>(_, self').
     Inr (StrVal (regex_string self'), self')))"

subsection \<open>The flag methods\<close>

text \<open>
  Each is \<^verbatim>\<open>return self._add_flag(re.FLAG)\<close>: the bound method is looked up, then its
  argument is evaluated, then it is called, and its result is returned.
\<close>

definition flag_method :: "re_flag \<Rightarrow> builder \<Rightarrow> error + val \<times> builder" where
  "flag_method f self =
     and_then (getattr ''_add_flag'' add_flag) (\<lambda>m.
     and_then (re_attr f) (\<lambda>flag.
     Inr (m flag self)))"

definition case_insensitive :: "builder \<Rightarrow> error + val \<times> builder" where
  "case_insensitive self = flag_method IGNORECASE self"

definition multiline :: "builder \<Rightarrow> error + val \<times> builder" where
  "multiline self = flag_method MULTILINE self"

definition match_newlines :: "builder \<Rightarrow> error + val \<times> builder" where
  "match_newlines self = flag_method DOTALL self"

definition as_unicode :: "builder \<Rightarrow> error + val \<times> builder" where
  "as_unicode self = flag_method UNICODE self"

definition as_ascii :: "builder \<Rightarrow> error + val \<times> builder" where
  "as_ascii self = flag_method ASCII self"

definition debug_mode :: "builder \<Rightarrow> error + val \<times> builder" where
  "debug_mode self = flag_method DEBUG self"

subsection \<open>The pattern methods\<close>

text \<open>\<^verbatim>\<open>self.regex_string += text\<close>\<close>

definition append_text :: "string \<Rightarrow> builder \<Rightarrow> builder" where
  "append_text text self = self\<lparr>regex_string := regex_string self @ text\<rparr>"

definition one_or_more :: "string option \<Rightarrow> builder \<Rightarrow> val \<times> builder" where
  "one_or_more element self =
     (Self, append_text (case element of None \<Rightarrow> ''+'' | Some e \<Rightarrow> e @ ''+'') self)"

definition zero_or_more :: "string option \<Rightarrow> builder \<Rightarrow> val \<times> builder" where
  "zero_or_more element self =
     (Self, append_text (case element of None \<Rightarrow> ''*'' | Some e \<Rightarrow> e @ ''*'') self)"

definition zero_or_one :: "helpers \<Rightarrow> string \<Rightarrow> builder \<Rightarrow> error + val \<times> builder" where
  "zero_or_one H element self =
     and_then (getattr ''_add_postfix'' (add_postfix H)) (\<lambda>m.
     and_then (m element ''?'' self) (\<lambda>self'.
     Inr (Self, self')))"

definition starting_with :: "helpers \<Rightarrow> string option \<Rightarrow> builder \<Rightarrow> error + val \<times> builder" where
  "starting_with H element self =
     (case element of
        None \<Rightarrow>
          and_then (getattr ''_add_prefix'' (add_prefix H)) (\<lambda>m.
          and_then (m (regex_string self) ''^'' self) (\<lambda>self'.
          Inr (Self, self')))
      | Some e \<Rightarrow>
          and_then (getattr ''_add_prefix'' (add_prefix H)) (\<lambda>m.
          and_then (m e ''^'' self) (\<lambda>self'.
          Inr (Self, self'))))"

definition ending_with :: "string option \<Rightarrow> builder \<Rightarrow> val \<times> builder" where
  "ending_with element self =
     (Self, append_text (case element of None \<Rightarrow> ''$'' | Some e \<Rightarrow> e @ ''$'') self)"

text \<open>
  \<^verbatim>\<open>self.regex_flags += "| Re.DOTALL"\<close> extends the list with the items of the string,
  one one-character \<^verbatim>\<open>str\<close> each.
\<close>

definition match_any_character :: "string option \<Rightarrow> bool \<Rightarrow> builder \<Rightarrow> val \<times> builder" where
  "match_any_character character match_newlines_arg self =
     (let self1 = append_text (case character of None \<Rightarrow> ''.'' | Some c \<Rightarrow> ''.'' @ c) self;
          self2 = (if match_newlines_arg
                   then self1\<lparr>regex_flags :=
                          regex_flags self1 @ map (\<lambda>c. Str [c]) ''| Re.DOTALL''\<rparr>
                   else self1)
      in (Self, self2))"

definition match_exactly :: "string option \<Rightarrow> builder \<Rightarrow> val \<times> builder" where
  "match_exactly element self =
     (case element of
        None \<Rightarrow>
          (let temp = regex_string self;
               self1 = self\<lparr>regex_string := []\<rparr>
           in (Self, append_text (''^'' @ temp @ ''$'') self1))
      | Some e \<Rightarrow> (Self, append_text (''^'' @ e @ ''$'') self))"

definition either_word_or_substring :: "string option \<Rightarrow> builder \<Rightarrow> val \<times> builder" where
  "either_word_or_substring element self =
     (case element of
        None \<Rightarrow>
          (let temp = regex_string self;
               self1 = self\<lparr>regex_string := []\<rparr>
           in (Self, self1\<lparr>regex_string := ''('' @ temp @ '')''\<rparr>))
      | Some e \<Rightarrow> (Self, append_text (''('' @ e @ '')'') self))"

definition match_either_or :: "string \<Rightarrow> string \<Rightarrow> builder \<Rightarrow> val \<times> builder" where
  "match_either_or element1 element2 self =
     (Self, append_text (element1 @ ''|'' @ element2) self)"

definition match_previous_or_this :: "string \<Rightarrow> builder \<Rightarrow> val \<times> builder" where
  "match_previous_or_this element self = (Self, append_text (''|'' @ element) self)"

definition set_of :: "string \<Rightarrow> builder \<Rightarrow> val \<times> builder" where
  "set_of element self = (Self, append_text (''['' @ element @ '']'') self)"

text \<open>
  The default of \<^verbatim>\<open>m\<close> is the empty string. The f-string formats \<^verbatim>\<open>n\<close>, then \<^verbatim>\<open>m\<close>,
  before the buffer is assigned.
\<close>

definition match_from_n_to_m_occurrences ::
    "arg \<Rightarrow> arg option \<Rightarrow> builder \<Rightarrow> error + val \<times> builder" where
  "match_from_n_to_m_occurrences n m self =
     and_then (format_arg n) (\<lambda>sn.
     and_then (format_arg (case m of None \<Rightarrow> StrArg [] | Some a \<Rightarrow> a)) (\<lambda>sm.
     Inr (Self, append_text (''{'' @ sn @ '', '' @ sm @ ''}'') self)))"

definition match_literal :: "string \<Rightarrow> builder \<Rightarrow> val \<times> builder" where
  "match_literal element self = (Self, append_text element self)"

definition escape :: "string \<Rightarrow> builder \<Rightarrow> val \<times> builder" where
  "escape element self = (Self, append_text (bsl # element) self)"

definition match_all_words :: "builder \<Rightarrow> val \<times> builder" where
  "match_all_words self = (Self, append_text ([bsl] @ ''b'' @ [bsl] @ ''w+'' @ [bsl] @ ''b'') self)"

definition match_all_words_and_digits :: "builder \<Rightarrow> val \<times> builder" where
  "match_all_words_and_digits self =
     (Self, append_text
        ([bsl] @ ''b'' @ [bsl] @ ''w*'' @ [bsl] @ ''d*'' @ [bsl] @ ''w+'' @ [bsl] @ ''b'') self)"

definition match_all_digits :: "builder \<Rightarrow> val \<times> builder" where
  "match_all_digits self = (Self, append_text ([bsl] @ ''d+'') self)"

definition match_words_up_to_n_chars :: "arg \<Rightarrow> builder \<Rightarrow> error + val \<times> builder" where
  "match_words_up_to_n_chars n self =
     and_then (format_arg n) (\<lambda>sn.
     Inr (Self, append_text
        ([bsl] @ ''b'' @ [bsl] @ ''w{'' @ sn @ '',}'' @ [bsl] @ ''b'') self))"

definition match_all_chars :: "builder \<Rightarrow> val \<times> builder" where
  "match_all_chars self = (Self, append_text ([bsl] @ ''S'') self)"

definition optional_character :: "string \<Rightarrow> builder \<Rightarrow> val \<times> builder" where
  "optional_character char self = (Self, append_text (char @ ''?'') self)"

text \<open>
  \<^verbatim>\<open>not_set_of\<close> prints a line when the element is the two characters backslash and
  \<^verbatim>\<open>s\<close> (Python keeps the backslash of the unknown escape \<^verbatim>\<open>\s\<close>). The model returns
  the lines printed beside the value and the object.
\<close>

definition advisory :: string where
  "advisory = ''This pattern is equivalent to '' @ [bsl] @
     ''S, please consider using it (call the  match_non_whitespace method)'' @
     '' if you want less verbosity.''"

definition not_set_of :: "string \<Rightarrow> builder \<Rightarrow> string list \<times> val \<times> builder" where
  "not_set_of element self =
     (let printed = (if element = [bsl, CHR ''s''] then [advisory] else [])
      in (printed, Self, append_text (''[^'' @ element @ '']'') self))"

definition match_non_whitespace :: "builder \<Rightarrow> val \<times> builder" where
  "match_non_whitespace self = (Self, append_text ([bsl] @ ''S'') self)"

subsection \<open>Calls, fluent chains and call sequences\<close>

text \<open>A call of a public method with its arguments; an omitted optional argument is \<open>None\<close>.\<close>

datatype op =
    Case_insensitive | Multiline | Match_newlines | As_unicode | As_ascii | Debug_mode
  | One_or_more "string option" | Zero_or_more "string option" | Zero_or_one string
  | Starting_with "string option" | Ending_with "string option"
  | Match_any_character "string option" bool
  | Match_exactly "string option" | Either_word_or_substring "string option"
  | Match_either_or string string | Match_previous_or_this string | Set_of string
  | Match_from_n_to_m_occurrences arg "arg option" | Match_literal string | Escape string
  | Match_all_words | Match_all_words_and_digits | Match_all_digits
  | Match_words_up_to_n_chars arg | Match_all_chars | Optional_character string
  | Not_set_of string | Match_non_whitespace | Build

fun op_name :: "op \<Rightarrow> string" where
  "op_name Case_insensitive = ''case_insensitive''"
| "op_name Multiline = ''multiline''"
| "op_name Match_newlines = ''match_newlines''"
| "op_name As_unicode = ''as_unicode''"
| "op_name As_ascii = ''as_ascii''"
| "op_name Debug_mode = ''debug_mode''"
| "op_name (One_or_more e) = ''one_or_more''"
| "op_name (Zero_or_more e) = ''zero_or_more''"
| "op_name (Zero_or_one e) = ''zero_or_one''"
| "op_name (Starting_with e) = ''starting_with''"
| "op_name (Ending_with e) = ''ending_with''"
| "op_name (Match_any_character c nl) = ''match_any_character''"
| "op_name (Match_exactly e) = ''match_exactly''"
| "op_name (Either_word_or_substring e) = ''either_word_or_substring''"
| "op_name (Match_either_or e1 e2) = ''match_either_or''"
| "op_name (Match_previous_or_this e) = ''match_previous_or_this''"
| "op_name (Set_of e) = ''set_of''"
| "op_name (Match_from_n_to_m_occurrences n m) = ''match_from_n_to_m_occurrences''"
| "op_name (Match_literal e) = ''match_literal''"
| "op_name (Escape e) = ''escape''"
| "op_name Match_all_words = ''match_all_words''"
| "op_name Match_all_words_and_digits = ''match_all_words_and_digits''"
| "op_name Match_all_digits = ''match_all_digits''"
| "op_name (Match_words_up_to_n_chars n) = ''match_words_up_to_n_chars''"
| "op_name Match_all_chars = ''match_all_chars''"
| "op_name (Optional_character c) = ''optional_character''"
| "op_name (Not_set_of e) = ''not_set_of''"
| "op_name Match_non_whitespace = ''match_non_whitespace''"
| "op_name Build = ''build''"

text \<open>
  One call on an instance: the lines it prints, the value it returns and the object
  afterwards, or the exception it raises.
\<close>

definition quiet :: "val \<times> builder \<Rightarrow> error + string list \<times> val \<times> builder" where
  "quiet r = Inr ([], r)"

fun call :: "helpers \<Rightarrow> op \<Rightarrow> builder \<Rightarrow> error + string list \<times> val \<times> builder" where
  "call H Case_insensitive self = and_then (case_insensitive self) quiet"
| "call H Multiline self = and_then (multiline self) quiet"
| "call H Match_newlines self = and_then (match_newlines self) quiet"
| "call H As_unicode self = and_then (as_unicode self) quiet"
| "call H As_ascii self = and_then (as_ascii self) quiet"
| "call H Debug_mode self = and_then (debug_mode self) quiet"
| "call H (One_or_more e) self = quiet (one_or_more e self)"
| "call H (Zero_or_more e) self = quiet (zero_or_more e self)"
| "call H (Zero_or_one e) self = and_then (zero_or_one H e self) quiet"
| "call H (Starting_with e) self = and_then (starting_with H e self) quiet"
| "call H (Ending_with e) self = quiet (ending_with e self)"
| "call H (Match_any_character c nl) self = quiet (match_any_character c nl self)"
| "call H (Match_exactly e) self = quiet (match_exactly e self)"
| "call H (Either_word_or_substring e) self = quiet (either_word_or_substring e self)"
| "call H (Match_either_or e1 e2) self = quiet (match_either_or e1 e2 self)"
| "call H (Match_previous_or_this e) self = quiet (match_previous_or_this e self)"
| "call H (Set_of e) self = quiet (set_of e self)"
| "call H (Match_from_n_to_m_occurrences n m) self =
     and_then (match_from_n_to_m_occurrences n m self) quiet"
| "call H (Match_literal e) self = quiet (match_literal e self)"
| "call H (Escape e) self = quiet (escape e self)"
| "call H Match_all_words self = quiet (match_all_words self)"
| "call H Match_all_words_and_digits self = quiet (match_all_words_and_digits self)"
| "call H Match_all_digits self = quiet (match_all_digits self)"
| "call H (Match_words_up_to_n_chars n) self =
     and_then (match_words_up_to_n_chars n self) quiet"
| "call H Match_all_chars self = quiet (match_all_chars self)"
| "call H (Optional_character c) self = quiet (optional_character c self)"
| "call H (Not_set_of e) self = Inr (not_set_of e self)"
| "call H Match_non_whitespace self = quiet (match_non_whitespace self)"
| "call H Build self = and_then (build H self) quiet"

text \<open>
  A fluent chain \<^verbatim>\<open>builder.m1(...).m2(...)...\<close> is one expression: each method is looked
  up on what the call before it returned. \<^verbatim>\<open>None\<close> and \<^verbatim>\<open>str\<close> have no attribute named
  like a method of the class, so the chain goes on only after a call that returned the
  instance; an exception ends it.
\<close>

fun chain :: "helpers \<Rightarrow> op list \<Rightarrow> string list \<times> val \<times> builder
    \<Rightarrow> error + string list \<times> val \<times> builder" where
  "chain H [] r = Inr r"
| "chain H (c # cs) (out, Self, self) =
     and_then (call H c self) (\<lambda>(out', v, self'). chain H cs (out @ out', v, self'))"
| "chain H (c # cs) (out, NoneVal, self) = Inl (AttributeError (op_name c))"
| "chain H (c # cs) (out, StrVal s, self) = Inl (AttributeError (op_name c))"

text \<open>
  A sequence of separate calls on one instance, each exception caught by the caller.
  Every method that raises does so before its first assignment, so a call that raised
  leaves the object as it found it.
\<close>

fun calls :: "helpers \<Rightarrow> op list \<Rightarrow> builder \<Rightarrow> builder" where
  "calls H [] self = self"
| "calls H (c # cs) self =
     (case call H c self of
        Inl err \<Rightarrow> calls H cs self
      | Inr (out, v, self') \<Rightarrow> calls H cs self')"

text \<open>\<^verbatim>\<open>build()\<close> called \<open>n\<close> times in succession: the values returned, in order.\<close>

fun builds :: "helpers \<Rightarrow> nat \<Rightarrow> builder \<Rightarrow> error + val list \<times> builder" where
  "builds H 0 self = Inr ([], self)"
| "builds H (Suc n) self =
     and_then (build H self) (\<lambda>(v, self').
     and_then (builds H n self') (\<lambda>(vs, self'').
     Inr (v # vs, self'')))"

text \<open>The chain of \<^verbatim>\<open>example.py\<close>.\<close>

definition example_chain :: "op list" where
  "example_chain =
    [Match_literal ''http'', Optional_character ''s'', Match_previous_or_this ''ftp'',
     Either_word_or_substring None, Match_literal ''://'',
     Not_set_of ([bsl] @ ''s/$.?#''), Match_any_character None False,
     Match_non_whitespace, Zero_or_more None, Match_exactly None, Build]"

text \<open>
  A value for the three names that raises as an unbound name does; it serves where a
  closed term is wanted.
\<close>

definition unbound :: helpers where
  "unbound =
     \<lparr>add_postfix = (\<lambda>element postfix self. Inl (AttributeError ''_add_postfix'')),
      add_prefix = (\<lambda>element prefix self. Inl (AttributeError ''_add_prefix'')),
      add_to_regex_string = (\<lambda>text self. Inl (AttributeError ''_add_to_regex_string''))\<rparr>"

section \<open>Name resolution in the class as written\<close>

lemma getattr_bound:
  "getattr ''_add_flag'' m = Inr m"
  "getattr ''_apply_changes'' m = Inr m"
  by (simp_all add: getattr_def class_names_def)

lemma getattr_unbound:
  "getattr ''_add_postfix'' m = Inl (AttributeError ''_add_postfix'')"
  "getattr ''_add_prefix'' m = Inl (AttributeError ''_add_prefix'')"
  "getattr ''_add_to_regex_string'' m = Inl (AttributeError ''_add_to_regex_string'')"
  by (simp_all add: getattr_def class_names_def instance_names_def)

lemma re_attr_unbound: "re_attr f = Inl (NameError ''re'')"
  by (simp add: re_attr_def module_names_def)

lemma flag_method_raises: "flag_method f self = Inl (NameError ''re'')"
  by (simp add: flag_method_def getattr_bound re_attr_unbound)

lemma add_flag_effect:
  "add_flag flag self = (NoneVal, self\<lparr>regex_flags := regex_flags self @ [flag]\<rparr>)"
  "regex_string (snd (add_flag flag self)) = regex_string self"
  "length (regex_flags (snd (add_flag flag self))) = Suc (length (regex_flags self))"
  by (simp_all add: add_flag_def)

lemma zero_or_one_unbound: "zero_or_one H e self = Inl (AttributeError ''_add_postfix'')"
  by (simp add: zero_or_one_def getattr_unbound)

lemma starting_with_unbound: "starting_with H e self = Inl (AttributeError ''_add_prefix'')"
  by (cases e) (simp_all add: starting_with_def getattr_unbound)

section \<open>Formatting numbers\<close>

lemma str_nat_digit: "n < 10 \<Longrightarrow> str_nat n = [digit_char n]"
  by (subst str_nat.simps) simp

lemma str_nat_step:
  "10 \<le> n \<Longrightarrow> str_nat n = str_nat (n div 10) @ [digit_char (n mod 10)]"
  by (subst str_nat.simps) simp

lemma length_str_nat_power: "length (str_nat (10 ^ k)) = Suc k"
proof (induction k)
  case 0
  show ?case by (simp add: str_nat_digit)
next
  case (Suc k)
  have "(10::nat) \<le> 10 ^ Suc k" by simp
  then have "str_nat (10 ^ Suc k)
      = str_nat (10 ^ Suc k div 10) @ [digit_char (10 ^ Suc k mod 10)]"
    by (rule str_nat_step)
  with Suc show ?case by simp
qed

lemma str_int_small:
  "str_int 15 = Inr ''15''"
  "str_int (- 7) = Inr ''-7''"
  "str_int 0 = Inr ''0''"
  by (simp_all add: str_int_def Let_def str_nat_digit str_nat_step max_str_digits_def
      digit_char_def)

text \<open>An integer of more than 4300 digits is not formatted: the call raises.\<close>

lemma str_int_too_long:
  assumes "max_str_digits \<le> k"
  shows "str_int (10 ^ k) = Inl ValueError"
proof -
  have "nat \<bar>10 ^ k :: int\<bar> = 10 ^ k" by (simp add: nat_power_eq)
  then have "length (str_nat (nat \<bar>10 ^ k :: int\<bar>)) = Suc k"
    by (simp only: length_str_nat_power)
  with assms show ?thesis
    unfolding str_int_def Let_def by (simp only: if_True less_Suc_eq_le)
qed

lemma long_bound_raises:
  assumes "max_str_digits \<le> k"
  shows "match_words_up_to_n_chars (IntArg (10 ^ k)) self = Inl ValueError"
    and "match_from_n_to_m_occurrences (IntArg (10 ^ k)) m self = Inl ValueError"
  using assms
  by (simp_all add: match_words_up_to_n_chars_def match_from_n_to_m_occurrences_def
      str_int_too_long)

lemma bounds_formatted:
  "match_from_n_to_m_occurrences (IntArg 2) (Some (IntArg 15)) init
     = Inr (Self, \<lparr>regex_string = ''{2, 15}'', regex_flags = [], previous_methods = []\<rparr>)"
  "match_from_n_to_m_occurrences (IntArg 2) None init
     = Inr (Self, \<lparr>regex_string = ''{2, }'', regex_flags = [], previous_methods = []\<rparr>)"
  "match_words_up_to_n_chars (IntArg 3) init
     = Inr (Self, \<lparr>regex_string = [bsl] @ ''b'' @ [bsl] @ ''w{3,}'' @ [bsl] @ ''b'',
                  regex_flags = [], previous_methods = []\<rparr>)"
  by (simp_all add: match_from_n_to_m_occurrences_def match_words_up_to_n_chars_def
      str_int_def Let_def str_nat_digit str_nat_step max_str_digits_def digit_char_def
      append_text_def init_def)

section \<open>build\<close>

lemma build_empty_flags:
  "regex_flags self = [] \<Longrightarrow> build H self = Inr (StrVal (regex_string self), self)"
  by (simp add: build_def getattr_bound apply_changes_def)

lemma str_items_strs: "str_items (map Str ss) = Inr ss"
  by (induction ss) simp_all

lemma build_str_flags:
  "build H (self\<lparr>regex_flags := Str s # map Str ss\<rparr>)
     = Inl (AttributeError ''_add_to_regex_string'')"
  by (simp add: build_def getattr_bound getattr_unbound apply_changes_def join_def
      str_items_strs)

lemma build_flags_raises: "regex_flags self \<noteq> [] \<Longrightarrow> isl (build H self)"
  by (cases "join ''|'' (regex_flags self)")
    (simp_all add: build_def getattr_bound getattr_unbound apply_changes_def)

text \<open>
  C4. When the flag list is empty, \<^verbatim>\<open>build()\<close> returns exactly the pattern buffer as it
  stands.
\<close>

theorem build_no_flags:
  "regex_flags self = [] \<Longrightarrow> build H self = Inr (StrVal (regex_string self), self)"
  by (rule build_empty_flags)

theorem build_no_flags_witness:
  "regex_flags (snd (set_of ''abc'' init)) = []
   \<and> build unbound (snd (set_of ''abc'' init))
       = Inr (StrVal ''[abc]'',
              \<lparr>regex_string = ''[abc]'', regex_flags = [], previous_methods = []\<rparr>)"
proof -
  have h: "regex_flags (snd (set_of ''abc'' init)) = []"
    by (simp add: set_of_def append_text_def init_def)
  from build_no_flags [OF h, of unbound] h show ?thesis
    by (simp add: set_of_def append_text_def init_def)
qed

text \<open>
  C10. When the flag list is empty, \<^verbatim>\<open>build()\<close> leaves the whole object as it was
  (buffer, flag list and history), so any number of \<^verbatim>\<open>build()\<close> calls in succession
  return the same string each time.
\<close>

theorem builds_no_flags:
  "regex_flags self = []
   \<Longrightarrow> builds H n self = Inr (replicate n (StrVal (regex_string self)), self)"
  by (induction n) (simp_all add: build_empty_flags)

theorem builds_no_flags_witness:
  "regex_flags (snd (match_all_digits init)) = []
   \<and> builds unbound 3 (snd (match_all_digits init))
       = Inr ([StrVal ([bsl] @ ''d+''), StrVal ([bsl] @ ''d+''), StrVal ([bsl] @ ''d+'')],
              \<lparr>regex_string = [bsl] @ ''d+'', regex_flags = [], previous_methods = []\<rparr>)"
proof -
  have h: "regex_flags (snd (match_all_digits init)) = []"
    by (simp add: match_all_digits_def append_text_def init_def)
  from builds_no_flags [OF h, of unbound 3] h show ?thesis
    by (simp add: match_all_digits_def append_text_def init_def eval_nat_numeral)
qed

text \<open>
  C2. With a non-empty flag list \<^verbatim>\<open>build()\<close> should return the flag group followed by
  the buffer. In the class as written it returns nothing: \<^verbatim>\<open>_apply_changes\<close> joins the
  flags and then calls \<^verbatim>\<open>self._add_to_regex_string\<close>, which no \<^verbatim>\<open>def\<close> binds. This holds
  for every flag list of strings, and for the object that
  \<^verbatim>\<open>match_any_character(match_newlines=True)\<close> leaves behind.
\<close>

theorem build_with_flags_raises:
  "build H (self\<lparr>regex_flags := Str s # map Str ss\<rparr>)
     = Inl (AttributeError ''_add_to_regex_string'')
   \<and> build H (snd (match_any_character None True init))
       = Inl (AttributeError ''_add_to_regex_string'')"
  by (simp add: build_def getattr_bound getattr_unbound apply_changes_def join_def
      str_items_strs match_any_character_def append_text_def init_def)

section \<open>The example chain\<close>

text \<open>
  C3. The chain of \<^verbatim>\<open>example.py\<close> on a fresh builder returns the string
  \<^verbatim>\<open>^(https?|ftp)://[^\s/$.?#].\S*$\<close>, prints nothing and leaves that string in the
  buffer.
\<close>

theorem example_chain_result:
  "chain H example_chain ([], Self, init) =
     Inr ([], StrVal (''^(https?|ftp)://[^'' @ [bsl] @ ''s/$.?#].'' @ [bsl] @ ''S*$''),
          \<lparr>regex_string = ''^(https?|ftp)://[^'' @ [bsl] @ ''s/$.?#].'' @ [bsl] @ ''S*$'',
           regex_flags = [], previous_methods = []\<rparr>)"
  by (simp add: example_chain_def init_def quiet_def match_literal_def
      optional_character_def match_previous_or_this_def either_word_or_substring_def
      not_set_of_def match_any_character_def match_non_whitespace_def zero_or_more_def
      match_exactly_def build_empty_flags append_text_def)

section \<open>Single operations\<close>

text \<open>
  C9. \<^verbatim>\<open>not_set_of(e)\<close> returns the builder with \<^verbatim>\<open>[^e]\<close> appended to the buffer,
  whatever \<^verbatim>\<open>e\<close> is; it prints the advisory exactly when \<^verbatim>\<open>e\<close> is backslash followed
  by \<^verbatim>\<open>s\<close>, and prints nothing otherwise.
\<close>

theorem not_set_of_effect:
  "snd (not_set_of e self)
     = (Self, self\<lparr>regex_string := regex_string self @ ''[^'' @ e @ '']''\<rparr>)
   \<and> fst (not_set_of e self) = (if e = [bsl, CHR ''s''] then [advisory] else [])
   \<and> (fst (not_set_of e self) = [advisory]) = (e = [bsl, CHR ''s''])"
  by (simp add: not_set_of_def append_text_def)

text \<open>
  C5. \<^verbatim>\<open>match_any_character\<close> appends \<^verbatim>\<open>.\<close> or \<^verbatim>\<open>.c\<close> to the buffer. With the newline
  argument set it should register one dot-all flag; the statement
  \<^verbatim>\<open>self.regex_flags += "| Re.DOTALL"\<close> instead extends the list by the eleven
  characters of that string, none of them the flag \<^verbatim>\<open>re.DOTALL\<close>.
\<close>

theorem match_any_character_effect:
  "match_any_character c nl self =
     (Self,
      self\<lparr>regex_string := regex_string self @ (case c of None \<Rightarrow> ''.'' | Some x \<Rightarrow> ''.'' @ x),
           regex_flags := regex_flags self @
             (if nl then [Str ''|'', Str '' '', Str ''R'', Str ''e'', Str ''.'', Str ''D'',
                          Str ''O'', Str ''T'', Str ''A'', Str ''L'', Str ''L'']
              else [])\<rparr>)
   \<and> length (regex_flags (snd (match_any_character None True init))) = 11
   \<and> Flag DOTALL \<notin> set (regex_flags (snd (match_any_character None True init)))"
  by (simp add: match_any_character_def append_text_def init_def)

text \<open>
  C6. Each flag method should append one flag and return what \<^verbatim>\<open>_add_flag\<close> returns.
  \<^verbatim>\<open>_add_flag\<close> itself does so (\<open>add_flag_effect\<close>), but every flag method evaluates
  \<^verbatim>\<open>re.FLAG\<close> first, and the module never imports \<^verbatim>\<open>re\<close>: on every object each of the
  six raises \<^verbatim>\<open>NameError\<close> and appends nothing.
\<close>

theorem flag_methods_raise:
  "case_insensitive self = Inl (NameError ''re'')
   \<and> multiline self = Inl (NameError ''re'')
   \<and> match_newlines self = Inl (NameError ''re'')
   \<and> as_unicode self = Inl (NameError ''re'')
   \<and> as_ascii self = Inl (NameError ''re'')
   \<and> debug_mode self = Inl (NameError ''re'')"
  by (simp add: case_insensitive_def multiline_def match_newlines_def as_unicode_def
      as_ascii_def debug_mode_def flag_method_raises)

text \<open>
  C1. No operation should raise on string and numeric arguments. On a fresh builder
  \<^verbatim>\<open>zero_or_one("a")\<close>, \<^verbatim>\<open>starting_with("a")\<close> and \<^verbatim>\<open>starting_with()\<close> raise
  \<^verbatim>\<open>AttributeError\<close>, the six flag methods raise \<^verbatim>\<open>NameError\<close>, and \<^verbatim>\<open>build()\<close> after
  \<^verbatim>\<open>match_any_character(match_newlines=True)\<close> raises \<^verbatim>\<open>AttributeError\<close>.
\<close>

theorem operations_raise:
  "call H (Zero_or_one ''a'') init = Inl (AttributeError ''_add_postfix'')
   \<and> call H (Starting_with (Some ''a'')) init = Inl (AttributeError ''_add_prefix'')
   \<and> call H (Starting_with None) init = Inl (AttributeError ''_add_prefix'')
   \<and> call H Case_insensitive init = Inl (NameError ''re'')
   \<and> call H Multiline init = Inl (NameError ''re'')
   \<and> call H Match_newlines init = Inl (NameError ''re'')
   \<and> call H As_unicode init = Inl (NameError ''re'')
   \<and> call H As_ascii init = Inl (NameError ''re'')
   \<and> call H Debug_mode init = Inl (NameError ''re'')
   \<and> chain H [Match_any_character None True, Build] ([], Self, init)
       = Inl (AttributeError ''_add_to_regex_string'')"
  by (simp add: zero_or_one_unbound starting_with_unbound case_insensitive_def multiline_def
      match_newlines_def as_unicode_def as_ascii_def debug_mode_def flag_method_raises
      quiet_def match_any_character_def append_text_def init_def build_def getattr_bound
      getattr_unbound apply_changes_def join_def)

section \<open>Operations with an optional element\<close>

lemma element_given:
  "snd (one_or_more (Some e) self) = self\<lparr>regex_string := regex_string self @ e @ ''+''\<rparr>"
  "snd (zero_or_more (Some e) self) = self\<lparr>regex_string := regex_string self @ e @ ''*''\<rparr>"
  "snd (ending_with (Some e) self) = self\<lparr>regex_string := regex_string self @ e @ ''$''\<rparr>"
  "snd (match_any_character (Some e) False self)
     = self\<lparr>regex_string := regex_string self @ ''.'' @ e\<rparr>"
  "snd (match_exactly (Some e) self)
     = self\<lparr>regex_string := regex_string self @ ''^'' @ e @ ''$''\<rparr>"
  "snd (either_word_or_substring (Some e) self)
     = self\<lparr>regex_string := regex_string self @ ''('' @ e @ '')''\<rparr>"
  by (simp_all add: one_or_more_def zero_or_more_def ending_with_def match_any_character_def
      match_exactly_def either_word_or_substring_def append_text_def)

lemma element_omitted:
  "snd (one_or_more None self) = self\<lparr>regex_string := regex_string self @ ''+''\<rparr>"
  "snd (zero_or_more None self) = self\<lparr>regex_string := regex_string self @ ''*''\<rparr>"
  "snd (ending_with None self) = self\<lparr>regex_string := regex_string self @ ''$''\<rparr>"
  "snd (match_any_character None False self)
     = self\<lparr>regex_string := regex_string self @ ''.''\<rparr>"
  "snd (match_exactly None self) = self\<lparr>regex_string := ''^'' @ regex_string self @ ''$''\<rparr>"
  "snd (either_word_or_substring None self)
     = self\<lparr>regex_string := ''('' @ regex_string self @ '')''\<rparr>"
  by (simp_all add: one_or_more_def zero_or_more_def ending_with_def match_any_character_def
      match_exactly_def either_word_or_substring_def append_text_def)

text \<open>
  C7. Every operation with an optional element should append text made from the element
  when one is given, and act on the buffer when none is. Six of the seven do
  (\<open>element_given\<close>, \<open>element_omitted\<close>). \<^verbatim>\<open>starting_with\<close> does neither: with or
  without an element it calls \<^verbatim>\<open>self._add_prefix\<close>, which no \<^verbatim>\<open>def\<close> binds, and raises.
\<close>

theorem starting_with_raises:
  "starting_with H (Some e) self = Inl (AttributeError ''_add_prefix'')
   \<and> starting_with H None self = Inl (AttributeError ''_add_prefix'')"
  by (simp add: starting_with_def getattr_unbound)

section \<open>The operation history\<close>

lemmas method_defs =
  case_insensitive_def multiline_def match_newlines_def as_unicode_def as_ascii_def
  debug_mode_def one_or_more_def zero_or_more_def ending_with_def match_any_character_def
  match_exactly_def either_word_or_substring_def match_either_or_def
  match_previous_or_this_def set_of_def match_literal_def
  escape_def match_all_words_def match_all_words_and_digits_def match_all_digits_def
  match_all_chars_def optional_character_def not_set_of_def
  match_non_whitespace_def

lemma and_then_Inr:
  "and_then x f = Inr y \<Longrightarrow> \<exists>z. x = Inr z \<and> f z = Inr y"
  by (cases x) simp_all

lemma call_history:
  assumes r: "call H c self = Inr (out, v, self')"
  shows "previous_methods self' = previous_methods self"
proof (cases c)
  case Build
  show ?thesis
  proof (cases "regex_flags self = []")
    case True
    with r Build show ?thesis by (auto simp: build_empty_flags quiet_def)
  next
    case False
    from build_flags_raises [OF False, of H] obtain err where "build H self = Inl err"
      by (cases "build H self") auto
    with r Build show ?thesis by simp
  qed
next
  case (Match_from_n_to_m_occurrences n m)
  with r show ?thesis
    by (auto simp: quiet_def match_from_n_to_m_occurrences_def append_text_def
        dest!: and_then_Inr)
next
  case (Match_words_up_to_n_chars n)
  with r show ?thesis
    by (auto simp: quiet_def match_words_up_to_n_chars_def append_text_def
        dest!: and_then_Inr)
qed (use r in \<open>auto simp: quiet_def method_defs flag_method_raises zero_or_one_unbound
    starting_with_unbound append_text_def Let_def split: option.splits if_splits\<close>)

lemma calls_history: "previous_methods (calls H cs self) = previous_methods self"
proof (induction cs arbitrary: self)
  case Nil
  show ?case by simp
next
  case (Cons c cs)
  show ?case
  proof (cases "call H c self")
    case (Inl err)
    then show ?thesis by (simp add: Cons.IH)
  next
    case (Inr r)
    obtain out v self' where r: "r = (out, v, self')" by (cases r) auto
    with Inr have "previous_methods self' = previous_methods self"
      by (auto dest: call_history)
    with Inr r show ?thesis by (simp add: Cons.IH)
  qed
qed

text \<open>
  C8. Every call should be recorded in \<^verbatim>\<open>previous_methods\<close>, which the class docstring
  describes as the list of previously applied method names. No method writes the list:
  after the one call \<^verbatim>\<open>match_literal("a")\<close> on a fresh builder it is empty, not
  \<^verbatim>\<open>["match_literal"]\<close>, and it is empty after any sequence of calls.
\<close>

theorem history_not_recorded:
  "previous_methods (calls unbound [Match_literal ''a''] init) = []
   \<and> previous_methods (calls unbound [Match_literal ''a''] init)
       \<noteq> map op_name [Match_literal ''a'']
   \<and> previous_methods (calls H cs init) = []"
  by (simp add: calls_history init_def quiet_def match_literal_def append_text_def)

end
